theory Spec2Isabelle
  imports Main "HOL-Library.Sublist"
begin

section \<open>The keyword tree of ahocorapy\<close>

text \<open>
  A shallow embedding of \<^verbatim>\<open>src/ahocorapy/keywordtree.py\<close> (the class \<^verbatim>\<open>KeywordTree\<close>)
  and of \<^verbatim>\<open>src/ahocorapy/reimplement_keywordtree.py\<close> (the class \<^verbatim>\<open>KdTree\<close>).

  The \<^verbatim>\<open>State\<close> objects of a tree live in an explicit store, a list indexed by address.
  A reference to a \<^verbatim>\<open>State\<close> is its address, and comparing two \<^verbatim>\<open>State\<close> objects
  (the class defines no \<^verbatim>\<open>__eq__\<close>) is comparing addresses. The root \<^verbatim>\<open>_zero_state\<close> is
  the first object either constructor allocates, so it is the object at address 0.
  A \<^verbatim>\<open>dict\<close> is an association list in insertion order with distinct keys.
  Symbols are 8-bit characters; \<^verbatim>\<open>str.lower\<close> is modelled on ASCII letters.
  An exception is a value of the type \<open>error\<close>; a loop that may run forever is a
  \<^theory_text>\<open>partial_function\<close> whose value \<open>None\<close> stands for not returning.
\<close>

subsection \<open>Errors and case folding\<close>

datatype error =
    ValueError string
  | AttributeError
  | TypeError
  | IndexError
  | RuntimeError

definition lower_char :: "char \<Rightarrow> char" where
  "lower_char c =
     (if 65 \<le> (of_char c :: nat) \<and> (of_char c :: nat) \<le> 90
      then char_of ((of_char c :: nat) + 32) else c)"

definition lower :: "string \<Rightarrow> string" where
  "lower text = map lower_char text"

subsection \<open>States and the tree\<close>

record state =
  "identifier" :: nat
  symbol :: "char option"
  success :: bool
  transitions :: "(char \<times> nat) list"
  parent :: "nat option"
  matched_keyword :: "string option"
  longest_strict_suffix :: "nat option"

definition State :: "nat \<Rightarrow> char option \<Rightarrow> nat option \<Rightarrow> bool \<Rightarrow> state" where
  "State ident sy par succ =
     \<lparr>identifier = ident, symbol = sy, success = succ, transitions = [],
      parent = par, matched_keyword = None, longest_strict_suffix = None\<rparr>"

record keywordtree =
  heap :: "state list"
  counter :: nat
  finalized :: bool
  case_insensitive :: bool

definition KeywordTree :: "bool \<Rightarrow> keywordtree" where
  "KeywordTree ci =
     \<lparr>heap = [State 0 None None False], counter = 1, finalized = False,
      case_insensitive = ci\<rparr>"

subsection \<open>add\<close>

text \<open>
  The loop of \<^verbatim>\<open>add\<close> over the characters of the keyword. A new \<^verbatim>\<open>State\<close> is allocated at
  the end of the store; the assignment \<^verbatim>\<open>current_state.transitions[char] = next_state\<close>
  only runs after a \<^verbatim>\<open>KeyError\<close>, so it appends an entry.
\<close>

fun add_loop :: "state list \<Rightarrow> nat \<Rightarrow> nat \<Rightarrow> string \<Rightarrow> state list \<times> nat \<times> nat" where
  "add_loop h cnt current_state [] = (h, cnt, current_state)"
| "add_loop h cnt current_state (c # cs) =
     (case map_of (transitions (h ! current_state)) c of
        Some nxt \<Rightarrow> add_loop h cnt nxt cs
      | None \<Rightarrow>
          (let next_state = length h;
               h1 = h @ [State cnt (Some c) (Some current_state) False];
               h2 = h1[current_state := (h1 ! current_state)
                        \<lparr>transitions := transitions (h1 ! current_state) @ [(c, next_state)]\<rparr>]
           in add_loop h2 (cnt + 1) next_state cs))"

text \<open>
  \<^verbatim>\<open>add\<close> returns the exception it raised, if any, and the tree as the call leaves it.
\<close>

definition add :: "keywordtree \<Rightarrow> string \<Rightarrow> error option \<times> keywordtree" where
  "add kt original_keyword =
     (if finalized kt
      then (Some (ValueError ''KeywordTree has been finalized. No more keyword additions allowed''), kt)
      else
        (let keyword = (if case_insensitive kt then lower original_keyword else original_keyword)
         in if length keyword \<le> 0 then (None, kt)
            else
              (case add_loop (heap kt) (counter kt) 0 keyword of
                 (h, cnt, current_state) \<Rightarrow>
                   (None,
                    kt\<lparr>heap := h[current_state := (h ! current_state)
                                 \<lparr>success := True, matched_keyword := Some original_keyword\<rparr>],
                       counter := cnt\<rparr>))))"

subsection \<open>finalize\<close>

text \<open>
  The \<^verbatim>\<open>while True\<close> loop of \<^verbatim>\<open>search_lss\<close>: it returns the state that the loop assigns to
  \<^verbatim>\<open>state.longest_strict_suffix\<close>. A symbol \<^verbatim>\<open>None\<close> is a key of no dictionary; reading
  \<^verbatim>\<open>traversed.transitions\<close> when \<^verbatim>\<open>traversed\<close> is \<^verbatim>\<open>None\<close> raises \<^verbatim>\<open>AttributeError\<close>.
\<close>

partial_function (option) search_lss_while ::
  "state list \<Rightarrow> nat \<Rightarrow> nat \<Rightarrow> (error + nat) option" where
  "search_lss_while h st traversed =
     (case (case symbol (h ! st) of
              None \<Rightarrow> None
            | Some c \<Rightarrow> map_of (transitions (h ! traversed)) c) of
        Some target \<Rightarrow>
          if target \<noteq> st then Some (Inr target)
          else if traversed = 0 then Some (Inr 0)
          else (case longest_strict_suffix (h ! traversed) of
                  None \<Rightarrow> Some (Inl AttributeError)
                | Some t \<Rightarrow> search_lss_while h st t)
      | None \<Rightarrow>
          if traversed = 0 then Some (Inr 0)
          else (case longest_strict_suffix (h ! traversed) of
                  None \<Rightarrow> Some (Inl AttributeError)
                | Some t \<Rightarrow> search_lss_while h st t))"

declare search_lss_while.simps [code]

text \<open>
  The merge loop at the end of \<^verbatim>\<open>search_lss\<close>, over the items of \<^verbatim>\<open>suffix.transitions\<close>;
  its first argument is \<^verbatim>\<open>state.transitions\<close>. Were \<^verbatim>\<open>suffix\<close> and \<^verbatim>\<open>state\<close> the same
  object, every symbol would be a key already and nothing would be written, so iterating
  over the items as they were at the start is exact.
\<close>

fun search_lss_merge ::
  "(char \<times> nat) list \<Rightarrow> nat \<Rightarrow> (char \<times> nat) list \<Rightarrow> (char \<times> nat) list" where
  "search_lss_merge tr sfx [] = tr"
| "search_lss_merge tr sfx ((sy, next_state) # items) =
     search_lss_merge
       (if sy \<notin> fst ` set tr \<and> sfx \<noteq> 0 then tr @ [(sy, next_state)] else tr)
       sfx items"

partial_function (option) search_lss ::
  "state list \<Rightarrow> nat \<Rightarrow> (error + state list) option" where
  "search_lss h st =
     (case longest_strict_suffix (h ! st) of
        Some _ \<Rightarrow> Some (Inr h)
      | None \<Rightarrow>
         (case parent (h ! st) of
            None \<Rightarrow> Some (Inl AttributeError)
          | Some p \<Rightarrow>
             (case longest_strict_suffix (h ! p) of
                None \<Rightarrow> Some (Inl AttributeError)
              | Some traversed \<Rightarrow>
                 (case search_lss_while h st traversed of
                    None \<Rightarrow> None
                  | Some (Inl e) \<Rightarrow> Some (Inl e)
                  | Some (Inr sfx) \<Rightarrow>
                      (let h1 = h[st := (h ! st)\<lparr>longest_strict_suffix := Some sfx\<rparr>] in
                       Option.bind
                         (if longest_strict_suffix (h1 ! sfx) = None
                          then search_lss h1 sfx else Some (Inr h1))
                         (\<lambda>r. case r of
                                Inl e \<Rightarrow> Some (Inl e)
                              | Inr h2 \<Rightarrow>
                                  Some (Inr (h2[st := (h2 ! st)
                                    \<lparr>transitions :=
                                        search_lss_merge (transitions (h2 ! st)) sfx
                                          (transitions (h2 ! sfx))\<rparr>]))))))))"

declare search_lss.simps [code]

text \<open>
  The \<^verbatim>\<open>for\<close> loop of \<^verbatim>\<open>search_lss_for_children\<close> over the view
  \<^verbatim>\<open>state.transitions.values()\<close>. The argument \<open>children\<close> holds the values not yet
  visited and \<open>used\<close> the size of the dictionary when the loop started: the iterator
  raises \<^verbatim>\<open>RuntimeError\<close> when it is advanced after the dictionary changed size, and
  entries are only ever appended, so a dictionary of unchanged size is unchanged.
  The stack \<^verbatim>\<open>to_process\<close> is kept with its top (the end of the Python list) at the head.
\<close>

fun search_lss_for_children_for ::
  "state list \<Rightarrow> nat set \<Rightarrow> nat list \<Rightarrow> nat \<Rightarrow> nat \<Rightarrow> nat list \<Rightarrow>
   (error + state list \<times> nat list) option" where
  "search_lss_for_children_for h processed to_process st used [] =
     (if length (transitions (h ! st)) \<noteq> used then Some (Inl RuntimeError)
      else Some (Inr (h, to_process)))"
| "search_lss_for_children_for h processed to_process st used (child # children) =
     (if length (transitions (h ! st)) \<noteq> used then Some (Inl RuntimeError)
      else if identifier (h ! child) \<notin> processed then
        (case search_lss h child of
           None \<Rightarrow> None
         | Some (Inl e) \<Rightarrow> Some (Inl e)
         | Some (Inr h') \<Rightarrow>
             search_lss_for_children_for h' processed (child # to_process) st used children)
      else search_lss_for_children_for h processed to_process st used children)"

partial_function (option) search_lss_for_children_while ::
  "state list \<Rightarrow> nat set \<Rightarrow> nat list \<Rightarrow> (error + state list) option" where
  "search_lss_for_children_while h processed to_process =
     (case to_process of
        [] \<Rightarrow> Some (Inr h)
      | st # rest \<Rightarrow>
          (let processed' = insert (identifier (h ! st)) processed in
           case search_lss_for_children_for h processed' rest st
                  (length (transitions (h ! st))) (map snd (transitions (h ! st))) of
             None \<Rightarrow> None
           | Some (Inl e) \<Rightarrow> Some (Inl e)
           | Some (Inr (h', to_process')) \<Rightarrow>
               search_lss_for_children_while h' processed' to_process'))"

declare search_lss_for_children_while.simps [code]

definition search_lss_for_children :: "state list \<Rightarrow> nat \<Rightarrow> (error + state list) option" where
  "search_lss_for_children h zero_state = search_lss_for_children_while h {} [zero_state]"

definition finalize :: "keywordtree \<Rightarrow> (error + keywordtree) option" where
  "finalize kt =
     (if finalized kt then Some (Inl (ValueError ''KeywordTree has already been finalized.''))
      else
        (let h0 = (heap kt)[0 := (heap kt ! 0)\<lparr>longest_strict_suffix := Some 0\<rparr>] in
         case search_lss_for_children h0 0 of
           None \<Rightarrow> None
         | Some (Inl e) \<Rightarrow> Some (Inl e)
         | Some (Inr h) \<Rightarrow> Some (Inr (kt\<lparr>heap := h, finalized := True\<rparr>))))"

subsection \<open>search_all and search_one\<close>

text \<open>
  \<^verbatim>\<open>search_all\<close> is a generator. Running it gives the matches it yields, in order, and
  how the run ends: the generator is exhausted, it raises, or (for \<^verbatim>\<open>search_one\<close>, which
  takes the first item only) it is left suspended at its first \<^verbatim>\<open>yield\<close>. The flag
  \<open>one\<close> tells whether the consumer stops at the first item. Offsets are Python integers.
\<close>

datatype ending = StopIteration | Suspended | Raised error

partial_function (option) search_all_while ::
  "bool \<Rightarrow> state list \<Rightarrow> nat \<Rightarrow> nat \<Rightarrow> ((string \<times> int) list \<times> ending) option" where
  "search_all_while one h idx st =
     (if st = 0 then Some ([], StopIteration)
      else if success (h ! st) then
        (case matched_keyword (h ! st) of
           None \<Rightarrow> Some ([], Raised TypeError)
         | Some keyword \<Rightarrow>
             (let m = (keyword, int idx + 1 - int (length keyword)) in
              if one then Some ([m], Suspended)
              else
                (case longest_strict_suffix (h ! st) of
                   None \<Rightarrow> Some ([m], Raised AttributeError)
                 | Some st' \<Rightarrow>
                     Option.bind (search_all_while one h idx st')
                       (\<lambda>r. Some (m # fst r, snd r)))))
      else
        (case longest_strict_suffix (h ! st) of
           None \<Rightarrow> Some ([], Raised AttributeError)
         | Some st' \<Rightarrow> search_all_while one h idx st'))"

declare search_all_while.simps [code]

fun search_all_for ::
  "bool \<Rightarrow> state list \<Rightarrow> nat \<Rightarrow> nat \<Rightarrow> string \<Rightarrow> ((string \<times> int) list \<times> ending) option" where
  "search_all_for one h idx current_state [] = Some ([], StopIteration)"
| "search_all_for one h idx current_state (sy # text) =
     (let current_state' =
            (case map_of (transitions (h ! current_state)) sy of
               Some s \<Rightarrow> s
             | None \<Rightarrow> (case map_of (transitions (h ! 0)) sy of Some s \<Rightarrow> s | None \<Rightarrow> 0))
      in case search_all_while one h idx current_state' of
           None \<Rightarrow> None
         | Some (ms, e) \<Rightarrow>
             if e = StopIteration then
               (case search_all_for one h (idx + 1) current_state' text of
                  None \<Rightarrow> None
                | Some (ms', e') \<Rightarrow> Some (ms @ ms', e'))
             else Some (ms, e))"

definition search_all_gen ::
  "bool \<Rightarrow> keywordtree \<Rightarrow> string \<Rightarrow> ((string \<times> int) list \<times> ending) option" where
  "search_all_gen one kt text =
     (if \<not> finalized kt
      then Some ([], Raised (ValueError
             ''KeywordTree has not been finalized. No search allowed. Call finalize() first.''))
      else search_all_for one (heap kt) 0 0
             (if case_insensitive kt then lower text else text))"

definition search_all :: "keywordtree \<Rightarrow> string \<Rightarrow> ((string \<times> int) list \<times> ending) option" where
  "search_all kt text = search_all_gen False kt text"

text \<open>
  \<^verbatim>\<open>search_one\<close> takes the first item of the generator: it returns the first match, or
  \<^verbatim>\<open>None\<close> when the generator stops without one, or raises what the generator raised
  before its first \<^verbatim>\<open>yield\<close>.
\<close>

definition search_one :: "keywordtree \<Rightarrow> string \<Rightarrow> (error + (string \<times> int) option) option" where
  "search_one kt text =
     (case search_all_gen True kt text of
        None \<Rightarrow> None
      | Some (m # ms, e) \<Rightarrow> Some (Inr (Some m))
      | Some ([], Raised err) \<Rightarrow> Some (Inl err)
      | Some ([], e) \<Rightarrow> Some (Inr None))"

definition search :: "keywordtree \<Rightarrow> string \<Rightarrow> (error + (string \<times> int) option) option" where
  "search kt text = search_one kt text"

subsection \<open>Building a tree\<close>

text \<open>
  The use the module makes of the class in its \<^verbatim>\<open>__main__\<close> block: a new tree, \<^verbatim>\<open>add\<close> for
  every keyword of a list in turn, then \<^verbatim>\<open>finalize\<close>.
\<close>

fun add_all :: "keywordtree \<Rightarrow> string list \<Rightarrow> keywordtree" where
  "add_all kt [] = kt"
| "add_all kt (k # ks) = add_all (snd (add kt k)) ks"

definition build :: "bool \<Rightarrow> string list \<Rightarrow> (error + keywordtree) option" where
  "build ci ks = finalize (add_all (KeywordTree ci) ks)"

subsection \<open>Snapshots: __getstate__ and __setstate__\<close>

text \<open>
  The dictionary \<^verbatim>\<open>__getstate__\<close> builds for one \<^verbatim>\<open>State\<close>, with identifiers in place of
  references, and the record it returns. An entry of \<^verbatim>\<open>state_list\<close> that is still
  \<^verbatim>\<open>None\<close> is \<open>None\<close>.
\<close>

record serialized_state =
  s_symbol :: "char option"
  s_success :: bool
  s_parent :: "nat option"
  s_matched_keyword :: "string option"
  s_longest_strict_suffix :: "nat option"
  s_transitions :: "(char \<times> nat) list"

record snapshot =
  s_case_insensitive :: bool
  s_finalized :: bool
  s_counter :: nat
  s_states :: "serialized_state option list"

definition serialize :: "state list \<Rightarrow> state \<Rightarrow> serialized_state" where
  "serialize h s =
     \<lparr>s_symbol = symbol s,
      s_success = success s,
      s_parent = map_option (\<lambda>p. identifier (h ! p)) (parent s),
      s_matched_keyword = matched_keyword s,
      s_longest_strict_suffix = map_option (\<lambda>p. identifier (h ! p)) (longest_strict_suffix s),
      s_transitions = map (\<lambda>(k, v). (k, identifier (h ! v))) (transitions s)\<rparr>"

text \<open>
  The \<^verbatim>\<open>for\<close> loop of \<^verbatim>\<open>__getstate__\<close> over the children of a state (nothing is written
  to a \<^verbatim>\<open>State\<close> here), and its \<^verbatim>\<open>while\<close> loop over \<^verbatim>\<open>todo_list\<close>, kept with its top at
  the head. A serialized state is a dictionary of six keys, so it is never falsy.
\<close>

fun getstate_for ::
  "state list \<Rightarrow> serialized_state option list \<Rightarrow> nat list \<Rightarrow> nat list \<Rightarrow> nat list" where
  "getstate_for h state_list todo_list [] = todo_list"
| "getstate_for h state_list todo_list (child # children) =
     getstate_for h state_list
       (if length state_list \<le> identifier (h ! child)
           \<or> state_list ! identifier (h ! child) = None
        then child # todo_list else todo_list)
       children"

partial_function (option) getstate_while ::
  "state list \<Rightarrow> serialized_state option list \<Rightarrow> nat list \<Rightarrow>
   (error + serialized_state option list) option" where
  "getstate_while h state_list todo_list =
     (case todo_list of
        [] \<Rightarrow> Some (Inr state_list)
      | st # rest \<Rightarrow>
          if length state_list \<le> identifier (h ! st) then Some (Inl IndexError)
          else
            (let state_list' = state_list[identifier (h ! st) := Some (serialize h (h ! st))]
             in getstate_while h state_list'
                  (getstate_for h state_list' rest (map snd (transitions (h ! st))))))"

declare getstate_while.simps [code]

definition getstate :: "keywordtree \<Rightarrow> (error + snapshot) option" where
  "getstate kt =
     (case getstate_while (heap kt) (replicate (counter kt) None) [0] of
        None \<Rightarrow> None
      | Some (Inl e) \<Rightarrow> Some (Inl e)
      | Some (Inr state_list) \<Rightarrow>
          Some (Inr \<lparr>s_case_insensitive = case_insensitive kt,
                     s_finalized = finalized kt,
                     s_counter = counter kt,
                     s_states = state_list\<rparr>))"

text \<open>
  \<^verbatim>\<open>__setstate__\<close> allocates the \<^verbatim>\<open>State\<close> of index \<open>idx\<close> at address \<open>idx\<close>, so the
  reference \<^verbatim>\<open>states[value]\<close> is the address \<open>value\<close>. Subscripting an entry that is
  \<^verbatim>\<open>None\<close> raises \<^verbatim>\<open>TypeError\<close> in the first loop; an index outside \<^verbatim>\<open>states\<close> raises
  \<^verbatim>\<open>IndexError\<close> in the second loop, and so does \<^verbatim>\<open>states[0]\<close> on an empty list.
\<close>

definition deserialize :: "nat \<Rightarrow> serialized_state \<Rightarrow> state" where
  "deserialize idx ser =
     (State idx (s_symbol ser) None False)
       \<lparr>success := s_success ser,
        matched_keyword := s_matched_keyword ser,
        longest_strict_suffix := s_longest_strict_suffix ser,
        parent := s_parent ser,
        transitions := s_transitions ser\<rparr>"

definition dangling :: "nat \<Rightarrow> serialized_state \<Rightarrow> bool" where
  "dangling n ser =
     ((case s_longest_strict_suffix ser of None \<Rightarrow> False | Some i \<Rightarrow> n \<le> i)
      \<or> (case s_parent ser of None \<Rightarrow> False | Some i \<Rightarrow> n \<le> i)
      \<or> list_ex (\<lambda>(k, v). n \<le> v) (s_transitions ser))"

definition setstate :: "snapshot \<Rightarrow> error + keywordtree" where
  "setstate snap =
     (if list_ex (\<lambda>e. e = None) (s_states snap) then Inl TypeError
      else if list_ex (\<lambda>e. dangling (length (s_states snap)) (the e)) (s_states snap)
      then Inl IndexError
      else if s_states snap = [] then Inl IndexError
      else Inr \<lparr>heap = map (\<lambda>(idx, e). deserialize idx (the e)) (enumerate 0 (s_states snap)),
                counter = s_counter snap,
                finalized = s_finalized snap,
                case_insensitive = s_case_insensitive snap\<rparr>)"

section \<open>The second implementation: KdTree\<close>

text \<open>
  \<^verbatim>\<open>reimplement_keywordtree.py\<close>, modelled the same way. The fields of its \<^verbatim>\<open>State\<close> and
  of \<^verbatim>\<open>KdTree\<close> carry the prefix \<open>kd_\<close> where the name is taken. The messages of its
  \<^verbatim>\<open>ValueError\<close>s are not ASCII text and are left empty.
\<close>

record kd_state =
  kd_state_id :: nat
  kd_symbol :: "char option"
  kd_parent :: "nat option"
  kd_success :: bool
  kd_transitions :: "(char \<times> nat) list"
  kd_keyword :: "string option"
  kd_failure :: "nat option"

definition KdState :: "nat \<Rightarrow> char option \<Rightarrow> nat option \<Rightarrow> bool \<Rightarrow> kd_state" where
  "KdState sid sy par succ =
     \<lparr>kd_state_id = sid, kd_symbol = sy, kd_parent = par, kd_success = succ,
      kd_transitions = [], kd_keyword = None, kd_failure = None\<rparr>"

record kdtree =
  kd_heap :: "kd_state list"
  case_sensitive :: bool
  kd_counter :: nat
  kd_finalized :: bool

definition KdTree :: "bool \<Rightarrow> kdtree" where
  "KdTree cs =
     \<lparr>kd_heap = [KdState 0 None None False], case_sensitive = cs, kd_counter = 1,
      kd_finalized = False\<rparr>"

fun add_keyword_loop ::
  "kd_state list \<Rightarrow> nat \<Rightarrow> nat \<Rightarrow> string \<Rightarrow> kd_state list \<times> nat \<times> nat" where
  "add_keyword_loop h cnt current_node [] = (h, cnt, current_node)"
| "add_keyword_loop h cnt current_node (c # cs) =
     (case map_of (kd_transitions (h ! current_node)) c of
        None \<Rightarrow>
          (let next_node = length h;
               h1 = h @ [KdState cnt (Some c) (Some current_node) False];
               h2 = h1[current_node := (h1 ! current_node)
                        \<lparr>kd_transitions := kd_transitions (h1 ! current_node) @ [(c, next_node)]\<rparr>]
           in add_keyword_loop h2 (cnt + 1) next_node cs)
      | Some nxt \<Rightarrow> add_keyword_loop h cnt nxt cs)"

definition add_keyword :: "kdtree \<Rightarrow> string \<Rightarrow> error option \<times> kdtree" where
  "add_keyword kt origin_keyword =
     (if kd_finalized kt then (Some (ValueError []), kt)
      else
        (let keyword = (if \<not> case_sensitive kt then lower origin_keyword else origin_keyword)
         in case add_keyword_loop (kd_heap kt) (kd_counter kt) 0 keyword of
              (h, cnt, current_node) \<Rightarrow>
                (None,
                 kt\<lparr>kd_heap := h[current_node := (h ! current_node)
                                   \<lparr>kd_success := True, kd_keyword := Some origin_keyword\<rparr>],
                    kd_counter := cnt\<rparr>)))"

text \<open>
  The inner \<^verbatim>\<open>for symbol, node in node.failure.transitions.items()\<close> of \<^verbatim>\<open>find_failure\<close>.
  The loop variable \<^verbatim>\<open>node\<close> shadows the parameter: the body tests and writes the
  transitions of the state the item points to, and maps the symbol to that same state.
  The dictionary iterated over is that of the failure state; an item of it that points
  to the failure state itself has its symbol as a key there, so the dictionary iterated
  over is never written.
\<close>

fun find_failure_for :: "kd_state list \<Rightarrow> (char \<times> nat) list \<Rightarrow> kd_state list" where
  "find_failure_for h [] = h"
| "find_failure_for h ((sy, node) # items) =
     find_failure_for
       (if sy \<notin> fst ` set (kd_transitions (h ! node))
        then h[node := (h ! node)\<lparr>kd_transitions := kd_transitions (h ! node) @ [(sy, node)]\<rparr>]
        else h)
       items"

partial_function (option) find_failure_while ::
  "kd_state list \<Rightarrow> nat \<Rightarrow> nat \<Rightarrow> (error + kd_state list) option" where
  "find_failure_while h node traversed_node =
     (case (case kd_symbol (h ! node) of
              None \<Rightarrow> None
            | Some c \<Rightarrow> map_of (kd_transitions (h ! traversed_node)) c) of
        Some target \<Rightarrow>
          if node \<noteq> target then
            (let h1 = h[node := (h ! node)\<lparr>kd_failure := Some target\<rparr>]
             in Some (Inr (find_failure_for h1 (kd_transitions (h1 ! target)))))
          else if traversed_node = 0
          then Some (Inr (h[node := (h ! node)\<lparr>kd_failure := Some 0\<rparr>]))
          else (case kd_failure (h ! traversed_node) of
                  None \<Rightarrow> Some (Inl AttributeError)
                | Some t \<Rightarrow> find_failure_while h node t)
      | None \<Rightarrow>
          if traversed_node = 0
          then Some (Inr (h[node := (h ! node)\<lparr>kd_failure := Some 0\<rparr>]))
          else (case kd_failure (h ! traversed_node) of
                  None \<Rightarrow> Some (Inl AttributeError)
                | Some t \<Rightarrow> find_failure_while h node t))"

declare find_failure_while.simps [code]

definition find_failure :: "kd_state list \<Rightarrow> nat \<Rightarrow> (error + kd_state list) option" where
  "find_failure h node =
     (case kd_failure (h ! node) of
        Some _ \<Rightarrow> Some (Inr h)
      | None \<Rightarrow>
          (case kd_parent (h ! node) of
             None \<Rightarrow> Some (Inl AttributeError)
           | Some p \<Rightarrow>
               (case kd_failure (h ! p) of
                  None \<Rightarrow> Some (Inl AttributeError)
                | Some traversed_node \<Rightarrow> find_failure_while h node traversed_node)))"

text \<open>
  The \<^verbatim>\<open>for child in children\<close> loop of \<^verbatim>\<open>find_failure_for_children\<close>, where
  \<^verbatim>\<open>children\<close> is the view \<^verbatim>\<open>current_node.transitions.values()\<close>: \<^verbatim>\<open>find_failure\<close> can
  write to the dictionary under iteration, and then advancing the iterator raises
  \<^verbatim>\<open>RuntimeError\<close>. \<open>used\<close> is the size of the dictionary when the loop started.
\<close>

fun find_failure_for_children_for ::
  "kd_state list \<Rightarrow> nat list \<Rightarrow> nat \<Rightarrow> nat \<Rightarrow> nat list \<Rightarrow>
   (error + kd_state list \<times> nat list) option" where
  "find_failure_for_children_for h to_add current_node used [] =
     (if length (kd_transitions (h ! current_node)) \<noteq> used then Some (Inl RuntimeError)
      else Some (Inr (h, to_add)))"
| "find_failure_for_children_for h to_add current_node used (child # children) =
     (if length (kd_transitions (h ! current_node)) \<noteq> used then Some (Inl RuntimeError)
      else
        (case find_failure h child of
           None \<Rightarrow> None
         | Some (Inl e) \<Rightarrow> Some (Inl e)
         | Some (Inr h') \<Rightarrow>
             find_failure_for_children_for h' (child # to_add) current_node used children))"

partial_function (option) find_failure_for_children_while ::
  "kd_state list \<Rightarrow> nat set \<Rightarrow> nat list \<Rightarrow> (error + kd_state list) option" where
  "find_failure_for_children_while h processed_node_id to_add_failure_nodes =
     (case to_add_failure_nodes of
        [] \<Rightarrow> Some (Inr h)
      | current_node # rest \<Rightarrow>
          if kd_state_id (h ! current_node) \<notin> processed_node_id then
            (case find_failure_for_children_for h rest current_node
                    (length (kd_transitions (h ! current_node)))
                    (map snd (kd_transitions (h ! current_node))) of
               None \<Rightarrow> None
             | Some (Inl e) \<Rightarrow> Some (Inl e)
             | Some (Inr (h', to_add')) \<Rightarrow>
                 find_failure_for_children_while h'
                   (insert (kd_state_id (h ! current_node)) processed_node_id) to_add')
          else find_failure_for_children_while h processed_node_id rest)"

declare find_failure_for_children_while.simps [code]

definition find_failure_for_children :: "kd_state list \<Rightarrow> nat \<Rightarrow> (error + kd_state list) option" where
  "find_failure_for_children h zero_node = find_failure_for_children_while h {} [zero_node]"

definition kd_finalize :: "kdtree \<Rightarrow> (error + kdtree) option" where
  "kd_finalize kt =
     (if kd_finalized kt then Some (Inl (ValueError []))
      else
        (let h0 = (kd_heap kt)[0 := (kd_heap kt ! 0)\<lparr>kd_failure := Some 0\<rparr>] in
         case find_failure_for_children h0 0 of
           None \<Rightarrow> None
         | Some (Inl e) \<Rightarrow> Some (Inl e)
         | Some (Inr h) \<Rightarrow> Some (Inr (kt\<lparr>kd_heap := h, kd_finalized := True\<rparr>))))"

text \<open>
  \<^verbatim>\<open>KdTree.search_all\<close>, a generator as well: the matches it yields and how its run ends.
  On a match \<^verbatim>\<open>current_node\<close> stays where it is.
\<close>

fun kd_search_all_for ::
  "kd_state list \<Rightarrow> nat \<Rightarrow> nat \<Rightarrow> string \<Rightarrow> (string \<times> int) list \<times> ending" where
  "kd_search_all_for h idx current_node [] = ([], StopIteration)"
| "kd_search_all_for h idx current_node (sy # text) =
     (case map_of (kd_transitions (h ! current_node)) sy of
        Some nxt \<Rightarrow>
          if kd_success (h ! nxt) then
            (case kd_keyword (h ! nxt) of
               None \<Rightarrow> ([], Raised TypeError)
             | Some keyword \<Rightarrow>
                 (case kd_search_all_for h (idx + 1) current_node text of
                    (ms, e) \<Rightarrow> ((keyword, int idx + 1 - int (length keyword)) # ms, e)))
          else kd_search_all_for h (idx + 1) nxt text
      | None \<Rightarrow> kd_search_all_for h (idx + 1) current_node text)"

definition kd_search_all :: "kdtree \<Rightarrow> string \<Rightarrow> (string \<times> int) list \<times> ending" where
  "kd_search_all kt text =
     (if \<not> kd_finalized kt then ([], Raised (ValueError []))
      else kd_search_all_for (kd_heap kt) 0 0
             (if \<not> case_sensitive kt then lower text else text))"

fun add_keyword_all :: "kdtree \<Rightarrow> string list \<Rightarrow> kdtree" where
  "add_keyword_all kt [] = kt"
| "add_keyword_all kt (k # ks) = add_keyword_all (snd (add_keyword kt k)) ks"

definition kd_build :: "bool \<Rightarrow> string list \<Rightarrow> (error + kdtree) option" where
  "kd_build cs ks = kd_finalize (add_keyword_all (KdTree cs) ks)"

section \<open>Calls in the wrong phase\<close>

lemma finalize_finalized:
  assumes "finalize kt0 = Some (Inr kt)"
  shows "finalized kt"
  using assms
  by (auto simp: finalize_def Let_def split: if_splits option.splits sum.splits)

lemma add_finalized:
  assumes "finalized kt"
  shows "add kt keyword =
           (Some (ValueError ''KeywordTree has been finalized. No more keyword additions allowed''), kt)"
  using assms by (simp add: add_def)

lemma KeywordTree_not_finalized: "\<not> finalized (KeywordTree ci)"
  by (simp add: KeywordTree_def)

lemma finalize_KeywordTree:
  "finalize (KeywordTree ci) =
     Some (Inr \<lparr>heap = [\<lparr>identifier = 0, symbol = None, success = False, transitions = [],
                         parent = None, matched_keyword = None,
                         longest_strict_suffix = Some 0\<rparr>],
                counter = 1, finalized = True, case_insensitive = ci\<rparr>)"
  by (simp add: finalize_def KeywordTree_def State_def search_lss_for_children_def
      search_lss_for_children_while.simps)

text \<open>
  C3. On a tree whose \<^verbatim>\<open>_finalized\<close> flag is not set (finalize has not run to its end, as
  on a tree just constructed), running the generator of \<^verbatim>\<open>search_all\<close> raises the
  \<^verbatim>\<open>ValueError\<close> that says the tree has not been finalized before it yields anything, and
  \<^verbatim>\<open>search_one\<close> and its alias \<^verbatim>\<open>search\<close> raise the same error.
\<close>

theorem search_before_finalize:
  assumes "\<not> finalized kt"
  shows "search_all kt text =
           Some ([], Raised (ValueError
             ''KeywordTree has not been finalized. No search allowed. Call finalize() first.''))
       \<and> search_one kt text =
           Some (Inl (ValueError
             ''KeywordTree has not been finalized. No search allowed. Call finalize() first.''))
       \<and> search kt text =
           Some (Inl (ValueError
             ''KeywordTree has not been finalized. No search allowed. Call finalize() first.''))"
  using assms by (simp add: search_all_def search_one_def search_def search_all_gen_def)

theorem search_before_finalize_witness:
  "\<not> finalized (KeywordTree False)
   \<and> search_all (KeywordTree False) ''ushers'' =
           Some ([], Raised (ValueError
             ''KeywordTree has not been finalized. No search allowed. Call finalize() first.''))
   \<and> search_one (KeywordTree False) ''ushers'' =
           Some (Inl (ValueError
             ''KeywordTree has not been finalized. No search allowed. Call finalize() first.''))"
  using search_before_finalize [of "KeywordTree False" "''ushers''"] KeywordTree_not_finalized
  by simp

text \<open>
  C4. After a successful \<^verbatim>\<open>finalize\<close>, a call of \<^verbatim>\<open>add\<close> raises the \<^verbatim>\<open>ValueError\<close> that
  says the tree has been finalized, and it leaves the tree as it was: \<^verbatim>\<open>search_all\<close> and
  \<^verbatim>\<open>search_one\<close> give on every text what they gave before the call.
\<close>

theorem add_after_finalize:
  assumes "finalize kt0 = Some (Inr kt)"
  shows "fst (add kt keyword) =
           Some (ValueError ''KeywordTree has been finalized. No more keyword additions allowed'')
       \<and> snd (add kt keyword) = kt
       \<and> search_all (snd (add kt keyword)) text = search_all kt text
       \<and> search_one (snd (add kt keyword)) text = search_one kt text"
  using add_finalized [OF finalize_finalized [OF assms]] by simp

theorem add_after_finalize_witness:
  "finalize (KeywordTree False) =
     Some (Inr \<lparr>heap = [\<lparr>identifier = 0, symbol = None, success = False, transitions = [],
                         parent = None, matched_keyword = None,
                         longest_strict_suffix = Some 0\<rparr>],
                counter = 1, finalized = True, case_insensitive = False\<rparr>)
   \<and> fst (add \<lparr>heap = [\<lparr>identifier = 0, symbol = None, success = False, transitions = [],
                         parent = None, matched_keyword = None,
                         longest_strict_suffix = Some 0\<rparr>],
                counter = 1, finalized = True, case_insensitive = False\<rparr> ''he'') =
           Some (ValueError ''KeywordTree has been finalized. No more keyword additions allowed'')"
  using add_after_finalize [OF finalize_KeywordTree [of False], of "''he''" "''ushers''"]
        finalize_KeywordTree [of False]
  by simp

section \<open>KdTree against KeywordTree\<close>

lemma kd_ab_b:
  "(case kd_build True [''ab'', ''b''] of
      Some (Inr kd) \<Rightarrow> kd_search_all kd ''ab'' = ([(''ab'', 0)], StopIteration)
    | _ \<Rightarrow> False)"
  by code_simp

lemma kt_ab_b:
  "(case build False [''ab'', ''b''] of
      Some (Inr kt) \<Rightarrow> search_all kt ''ab'' = Some ([(''ab'', 0), (''b'', 1)], StopIteration)
    | _ \<Rightarrow> False)"
  by code_simp

text \<open>
  C9. With the keywords \<^verbatim>\<open>ab\<close> and \<^verbatim>\<open>b\<close> and the text \<^verbatim>\<open>ab\<close>, both trees finalize;
  \<^verbatim>\<open>KeywordTree.search_all\<close> yields \<^verbatim>\<open>("ab", 0)\<close> and \<^verbatim>\<open>("b", 1)\<close>, and
  \<^verbatim>\<open>KdTree.search_all\<close> yields \<^verbatim>\<open>("ab", 0)\<close> only: strictly fewer matches, the missing one
  being the keyword \<^verbatim>\<open>b\<close>, a strict suffix of the keyword \<^verbatim>\<open>ab\<close> it has just matched.
\<close>

theorem kdtree_under_reports:
  "\<exists>kt kd ms kd_ms.
      build False [''ab'', ''b''] = Some (Inr kt)
    \<and> kd_build True [''ab'', ''b''] = Some (Inr kd)
    \<and> search_all kt ''ab'' = Some (ms, StopIteration)
    \<and> kd_search_all kd ''ab'' = (kd_ms, StopIteration)
    \<and> length kd_ms < length ms
    \<and> (''b'', 1) \<in> set ms \<and> (''b'', 1) \<notin> set kd_ms
    \<and> strict_suffix ''b'' ''ab'' \<and> (''ab'', 0) \<in> set kd_ms"
proof -
  obtain kd where kd: "kd_build True [''ab'', ''b''] = Some (Inr kd)"
    and kd_out: "kd_search_all kd ''ab'' = ([(''ab'', 0)], StopIteration)"
    using kd_ab_b by (auto split: option.splits sum.splits)
  obtain kt where kt: "build False [''ab'', ''b''] = Some (Inr kt)"
    and kt_out: "search_all kt ''ab'' = Some ([(''ab'', 0), (''b'', 1)], StopIteration)"
    using kt_ab_b by (auto split: option.splits sum.splits)
  have "strict_suffix ''b'' ''ab''"
    by (simp add: strict_suffix_def suffix_def)
  with kd kd_out kt kt_out show ?thesis
    by (intro exI [of _ kt] exI [of _ kd] exI [of _ "[(''ab'', 0), (''b'', 1)]"]
        exI [of _ "[(''ab'', 0)]"]) simp
qed

end
